theory Spec2Isabelle
  imports Main
begin

section \<open>Python values, exceptions and the process state\<close>

text \<open>
  The exceptions the modelled code can raise. \<open>ValueError\<close> is what \<open>list.index\<close> raises,
  \<open>KeyError\<close> and \<open>IndexError\<close> come from subscripting, \<open>AttributeError\<close> from a
  missing attribute. \<open>ExternalError\<close> stands for whatever an external call (download, boto3,
  the training run, the export) raises. \<open>ConfigurationError\<close> is the error class the
  specification names; no statement of the source raises it.
\<close>

datatype py_error =
    ValueError
  | KeyError
  | IndexError
  | AttributeError
  | ExternalError string
  | ConfigurationError

text \<open>Hyperparameter values and paths: \<open>None\<close>, an integer or a string.\<close>

datatype pyval = NoneV | IntV int | StrV string

type_synonym dict = "string \<rightharpoonup> pyval"

text \<open>Dictionaries are objects: they live in a heap and are passed by reference.\<close>

type_synonym ref = nat

definition dict_get :: "dict \<Rightarrow> string \<Rightarrow> pyval \<Rightarrow> pyval" where
  "dict_get d k dflt = (case d k of None \<Rightarrow> dflt | Some v \<Rightarrow> v)"

text \<open>\<open>xs.index(x)\<close>: the first position of \<open>x\<close>, \<open>ValueError\<close> when there is none.\<close>

fun index_py :: "'a list \<Rightarrow> 'a \<Rightarrow> py_error + nat" where
  "index_py [] x = Inl ValueError"
| "index_py (y # ys) x =
     (if y = x then Inr 0
      else (case index_py ys x of Inl e \<Rightarrow> Inl e | Inr i \<Rightarrow> Inr (Suc i)))"

text \<open>\<open>s[:-5]\<close> and \<open>s.startswith(p)\<close> on strings.\<close>

definition drop_last5 :: "string \<Rightarrow> string" where
  "drop_last5 s = take (length s - 5) s"

definition startswith :: "string \<Rightarrow> string \<Rightarrow> bool" where
  "startswith s p = (take (length p) s = p)"


section \<open>The cluster descriptor (TF_CONFIG)\<close>

record task =
  index :: nat
  type :: string

record tf_config =
  cluster :: "string \<rightharpoonup> string list"
  task :: task
  environment :: string


section \<open>Effects\<close>

text \<open>
  Everything the process does to the outside world is an event of its trace, in program
  order. Calls to the logging module only write to the log and are left out.
\<close>

datatype env_value = Lit string | Str_of pyval | Json_dumps tf_config

datatype event =
    SetEnviron string env_value
  | DownloadUserModule
  | PipInstallRequirements
  | ImportUserModule
  | GetBucketLocation string
  | ThreadStart_ps_server string "string list" tf_config
  | TrainAndLogExceptions
  | ExportSavedModel pyval string
  | CheckCall "string list"
  | TimeSleep nat
  | OsExit int

record pstate =
  heap :: "ref \<Rightarrow> dict"
  trace :: "event list"

definition emit :: "event \<Rightarrow> pstate \<Rightarrow> pstate" where
  "emit e s = s\<lparr>trace := trace s @ [e]\<rparr>"

text \<open>
  The external collaborators (\<open>container_support\<close>, \<open>run\<close>, \<open>serve\<close>, boto3, curl) are
  not among the modelled files; they are an oracle: what each external call does when it is
  made. \<open>None\<close> is a normal return, \<open>Some e\<close> raises \<open>e\<close>. \<open>curl_exit_codes\<close> are the exit
  statuses of the successive \<open>curl\<close> probes, as far as they have been observed.
\<close>

record customer_module =
  has_estimator_fn :: bool
  has_keras_model_fn :: bool
  has_model_fn :: bool

record externals =
  download_user_module :: "py_error option"
  pip_install_requirements :: "py_error option"
  import_user_module :: "py_error + customer_module"
  get_bucket_location :: "py_error + string option"
  train_and_log_exceptions :: "py_error option"
  export_saved_model :: "py_error option"
  curl_exit_codes :: "int list"

definition call :: "event \<Rightarrow> py_error option \<Rightarrow> pstate \<Rightarrow> (py_error + unit) \<times> pstate" where
  "call e outcome s =
     (case outcome of None \<Rightarrow> (Inr (), emit e s) | Some err \<Rightarrow> (Inl err, emit e s))"


section \<open>trainer.py\<close>

record trainer =
  customer_script :: customer_module
  current_host :: string
  hosts :: "string list"
  train_steps :: pyval
  eval_steps :: pyval
  training_path :: pyval
  model_path :: pyval
  ouput_path :: pyval
  task_type :: "string option"
  customer_params :: ref

text \<open>
  \<open>Trainer._configure_s3_file_system\<close>: asks S3 for the bucket's location, then sets two
  environment variables. \<open>parse_s3_url\<close> is external; the request is recorded with the
  whole model path.
\<close>

definition configure_s3_file_system ::
  "externals \<Rightarrow> string \<Rightarrow> pstate \<Rightarrow> (py_error + unit) \<times> pstate" where
  "configure_s3_file_system ext path s =
     (let s1 = emit (GetBucketLocation path) s in
      case get_bucket_location ext of
        Inl e \<Rightarrow> (Inl e, s1)
      | Inr bucket_location \<Rightarrow>
          (let s2 = (case bucket_location of
                       None \<Rightarrow> s1
                     | Some loc \<Rightarrow>
                         if loc \<noteq> [] then emit (SetEnviron ''S3_REGION'' (Lit loc)) s1 else s1)
           in (Inr (), emit (SetEnviron ''S3_USE_HTTPS'' (Lit ''1'')) s2)))"

text \<open>
  \<open>Trainer.__init__\<close>. The two assignments into \<open>customer_params\<close> write into the
  dictionary object the caller passed; \<open>model_path.startswith\<close> raises
  \<open>AttributeError\<close> on a value that is not a string.
\<close>

definition Trainer_init ::
  "externals \<Rightarrow> customer_module \<Rightarrow> string \<Rightarrow> string list \<Rightarrow> pyval \<Rightarrow> pyval \<Rightarrow> pyval \<Rightarrow> pyval
     \<Rightarrow> pyval \<Rightarrow> pyval \<Rightarrow> ref \<Rightarrow> pyval \<Rightarrow> pstate \<Rightarrow> (py_error + trainer) \<times> pstate" where
  "Trainer_init ext script cur hs tsteps esteps tpath mpath opath min_eval_frequency
       params save_checkpoints_secs s =
     (let self = \<lparr>customer_script = script, current_host = cur, hosts = hs,
                  train_steps = tsteps, eval_steps = esteps, training_path = tpath,
                  model_path = mpath, ouput_path = opath, task_type = None,
                  customer_params = params\<rparr>;
          d0 = heap s params;
          d1 = d0(''min_eval_frequency'' \<mapsto> dict_get d0 ''min_eval_frequency'' min_eval_frequency);
          d2 = d1(''save_checkpoints_secs'' \<mapsto>
                    dict_get d1 ''save_checkpoints_secs'' save_checkpoints_secs);
          s1 = s\<lparr>heap := (heap s)(params := d2)\<rparr>
      in case mpath of
           StrV p \<Rightarrow>
             if startswith p ''s3://'' then
               (case configure_s3_file_system ext p s1 of
                  (Inl e, s2) \<Rightarrow> (Inl e, s2)
                | (Inr u, s2) \<Rightarrow> (Inr self, s2))
             else (Inr self, s1)
         | NoneV \<Rightarrow> (Inl AttributeError, s1)
         | IntV n \<Rightarrow> (Inl AttributeError, s1))"

definition get_task_type :: "trainer \<Rightarrow> string list \<Rightarrow> string" where
  "get_task_type self masters =
     (if current_host self \<in> set masters then ''master'' else ''worker'')"

definition build_host_addresses :: "string list \<Rightarrow> string \<Rightarrow> string list" where
  "build_host_addresses my_hosts port = map (\<lambda>host. host @ '':'' @ port) my_hosts"

text \<open>
  \<open>Trainer.build_tf_config\<close>. It assigns \<open>self.task_type\<close>, so it returns the trainer as
  well; the assignment happens before \<open>index\<close> can raise.
\<close>

definition build_tf_config :: "trainer \<Rightarrow> (py_error + tf_config) \<times> trainer" where
  "build_tf_config self =
     (let masters = take 1 (hosts self);
          workers = drop 1 (hosts self);
          ps = (if length (hosts self) > 1 then Some (hosts self) else None);
          ttype = get_task_type self masters;
          self1 = self\<lparr>task_type := Some ttype\<rparr>;
          task_map0 = [''master'' \<mapsto> masters, ''worker'' \<mapsto> workers];
          task_map = (case ps of
                        None \<Rightarrow> task_map0
                      | Some p \<Rightarrow> if p \<noteq> [] then task_map0(''ps'' \<mapsto> p) else task_map0)
      in case task_map ttype of
           None \<Rightarrow> (Inl KeyError, self1)
         | Some role_hosts \<Rightarrow>
             (case index_py role_hosts (current_host self1) of
                Inl e \<Rightarrow> (Inl e, self1)
              | Inr task_id \<Rightarrow>
                  (let c0 = [''master'' \<mapsto> build_host_addresses masters ''2222''];
                       c1 = (case ps of
                               None \<Rightarrow> c0
                             | Some p \<Rightarrow>
                                 if p \<noteq> [] then c0(''ps'' \<mapsto> build_host_addresses p ''2223'')
                                 else c0);
                       c2 = (if length workers > 0
                             then c1(''worker'' \<mapsto> build_host_addresses workers ''2222'')
                             else c1)
                   in (Inr \<lparr>cluster = c2,
                            task = \<lparr>index = task_id, type = ttype\<rparr>,
                            environment = ''cloud''\<rparr>, self1))))"

text \<open>
  \<open>Trainer._build_estimator\<close>. The customer's callables and TensorFlow are external, so
  the result records which constructor call is made and with which arguments.
  \<open>hasattr(self.customer_script, name)\<close> is the corresponding field of the module.
\<close>

definition valid_runconfig_keys :: "string list" where
  "valid_runconfig_keys =
     [''save_summary_steps'', ''save_checkpoints_secs'', ''save_checkpoints_steps'',
      ''keep_checkpoint_max'', ''keep_checkpoint_every_n_hours'', ''log_step_count_steps'']"

record run_config =
  model_dir :: pyval
  kwargs :: dict

datatype estimator =
    Estimator_fn_result run_config ref
  | Model_to_estimator ref run_config
  | Estimator ref run_config

definition build_estimator :: "trainer \<Rightarrow> pstate \<Rightarrow> estimator" where
  "build_estimator self s =
     (let runconfig_params = heap s (customer_params self) |` set valid_runconfig_keys;
          run_config = \<lparr>model_dir = model_path self, kwargs = runconfig_params\<rparr>
      in if has_estimator_fn (customer_script self)
           then Estimator_fn_result run_config (customer_params self)
         else if has_keras_model_fn (customer_script self)
           then Model_to_estimator (customer_params self) run_config
         else Estimator (customer_params self) run_config)"

text \<open>
  The closure \<open>_model_fn\<close> handed to \<open>tf.estimator.Estimator\<close> looks
  \<open>customer_script.model_fn\<close> up only when it is called.
\<close>

definition model_fn_wrapper :: "trainer \<Rightarrow> py_error + unit" where
  "model_fn_wrapper self =
     (if has_model_fn (customer_script self) then Inr () else Inl AttributeError)"


section \<open>train.py\<close>

text \<open>How a block of statements ends; \<open>Blocked\<close>: still inside the probing loop when the
  observed exit codes run out.\<close>

datatype completion = Normal | Abrupt py_error | Blocked

text \<open>
  \<open>_wait_until_master_is_down\<close>: \<open>check_call\<close> raises \<open>CalledProcessError\<close> exactly
  when curl's exit status is not 0 (curl itself is taken to be installed). The loop has no
  bound: it consumes one observed status per probe, hands back the statuses it did not use,
  and is \<open>Blocked\<close> when every observed probe succeeded.
\<close>

fun wait_until_master_is_down ::
  "string \<Rightarrow> int list \<Rightarrow> pstate \<Rightarrow> completion \<times> int list \<times> pstate" where
  "wait_until_master_is_down master [] s = (Blocked, [], s)"
| "wait_until_master_is_down master (rc # rcs) s =
     (if rc = 0
      then wait_until_master_is_down master rcs
             (emit (TimeSleep 10) (emit (CheckCall [''curl'', master @ '':2222'']) s))
      else (Normal, rcs, emit (CheckCall [''curl'', master @ '':2222'']) s))"

definition save_tf_config_env_var :: "tf_config \<Rightarrow> pstate \<Rightarrow> pstate" where
  "save_tf_config_env_var cfg s = emit (SetEnviron ''TF_CONFIG'' (Json_dumps cfg)) s"

text \<open>
  \<open>_run_ps_server\<close> starts a thread running \<open>start_ps_server\<close> and returns at once; the
  thread's body (the TensorFlow server and its \<open>join\<close>) runs beside the main flow.
\<close>

definition run_ps_server :: "string \<Rightarrow> string list \<Rightarrow> tf_config \<Rightarrow> pstate \<Rightarrow> pstate" where
  "run_ps_server cur hs cfg s = emit (ThreadStart_ps_server cur hs cfg) s"

definition get_master :: "tf_config \<Rightarrow> py_error + string" where
  "get_master cfg =
     (case cluster cfg ''master'' of
        None \<Rightarrow> Inl KeyError
      | Some ms \<Rightarrow> (case ms of [] \<Rightarrow> Inl IndexError | m # rest \<Rightarrow> Inr (drop_last5 m)))"

text \<open>\<open>cs.TrainingEnvironment()\<close> is external; its fields are the input of \<open>train\<close>.\<close>

record training_environment =
  env_current_host :: string
  env_hosts :: "string list"
  env_hyperparameters :: ref
  env_model_dir :: string
  env_output_dir :: string
  env_channel_dirs :: "string \<rightharpoonup> string"

definition CHANNEL_DIR :: string where
  "CHANNEL_DIR = ''training''"

text \<open>How \<open>train\<close> ends: the process is gone (\<open>os._exit\<close>), an exception leaves the
  function, the function returns, or the process is still probing the master.\<close>

datatype exit = Exited int | Raised py_error | Returned | Running

text \<open>Lines 76 to 108 of \<open>train\<close>: everything before the \<open>try\<close> statement.\<close>

definition train_setup ::
  "externals \<Rightarrow> training_environment \<Rightarrow> pstate
     \<Rightarrow> (py_error + trainer \<times> tf_config \<times> pyval) \<times> pstate" where
  "train_setup ext env s0 =
     (let hp = heap s0 (env_hyperparameters env);
          checkpoint_dir = dict_get hp ''checkpoint_path'' (StrV (env_model_dir env));
          tsteps = dict_get hp ''training_steps'' (IntV 1000);
          esteps = dict_get hp ''evaluation_steps'' (IntV 100);
          s1 = emit (SetEnviron ''S3_REQUEST_TIMEOUT_MSEC''
                       (Str_of (dict_get hp ''s3_checkpoint_save_timeout'' (IntV 60000)))) s0
      in case call DownloadUserModule (download_user_module ext) s1 of
           (Inl e, s2) \<Rightarrow> (Inl e, s2)
         | (Inr u, s2) \<Rightarrow>
      (case call PipInstallRequirements (pip_install_requirements ext) s2 of
           (Inl e, s3) \<Rightarrow> (Inl e, s3)
         | (Inr u, s3) \<Rightarrow>
      (case import_user_module ext of
           Inl e \<Rightarrow> (Inl e, emit ImportUserModule s3)
         | Inr script \<Rightarrow>
      (case env_channel_dirs env CHANNEL_DIR of
           None \<Rightarrow> (Inl KeyError, emit ImportUserModule s3)
         | Some tpath \<Rightarrow>
      (case Trainer_init ext script (env_current_host env) (env_hosts env) tsteps esteps
              (StrV tpath) checkpoint_dir (StrV (env_output_dir env)) (IntV 1000)
              (env_hyperparameters env) (IntV 300) (emit ImportUserModule s3) of
           (Inl e, s5) \<Rightarrow> (Inl e, s5)
         | (Inr train_wrapper0, s5) \<Rightarrow>
      (case build_tf_config train_wrapper0 of
           (Inl e, train_wrapper) \<Rightarrow> (Inl e, s5)
         | (Inr cfg, train_wrapper) \<Rightarrow>
             (let s6 = (if length (env_hosts env) > 1
                        then run_ps_server (env_current_host env) (env_hosts env) cfg s5
                        else s5);
                  s7 = save_tf_config_env_var cfg s6
              in (Inr (train_wrapper, cfg, checkpoint_dir), s7))))))))"

text \<open>The body of the \<open>try\<close> statement (lines 111 to 118).\<close>

definition train_body ::
  "externals \<Rightarrow> training_environment \<Rightarrow> trainer \<Rightarrow> tf_config \<Rightarrow> pyval \<Rightarrow> pstate
     \<Rightarrow> completion \<times> pstate" where
  "train_body ext env train_wrapper cfg checkpoint_dir s =
     (case call TrainAndLogExceptions (train_and_log_exceptions ext) s of
        (Inl e, s1) \<Rightarrow> (Abrupt e, s1)
      | (Inr u, s1) \<Rightarrow>
          (case (if checkpoint_dir \<noteq> StrV (env_model_dir env) \<and>
                    task_type train_wrapper = Some ''master''
                 then call (ExportSavedModel checkpoint_dir (env_model_dir env))
                        (export_saved_model ext) s1
                 else (Inr (), s1)) of
             (Inl e, s2) \<Rightarrow> (Abrupt e, s2)
           | (Inr u, s2) \<Rightarrow>
               if task_type train_wrapper \<noteq> Some ''master'' then
                 (case get_master cfg of
                    Inl e \<Rightarrow> (Abrupt e, s2)
                  | Inr master \<Rightarrow>
                      (case wait_until_master_is_down master (curl_exit_codes ext) s2 of
                         (c, unused, s3) \<Rightarrow> (c, s3)))
               else (Normal, s2)))"

text \<open>The \<open>finally\<close> clause: \<open>os._exit(0)\<close>, whichever way the body ended.\<close>

definition finally_os_exit :: "completion \<times> pstate \<Rightarrow> exit \<times> pstate" where
  "finally_os_exit r =
     (case r of
        (Blocked, s) \<Rightarrow> (Running, s)
      | (Normal, s) \<Rightarrow> (Exited 0, emit (OsExit 0) s)
      | (Abrupt e, s) \<Rightarrow> (Exited 0, emit (OsExit 0) s))"

definition train :: "externals \<Rightarrow> training_environment \<Rightarrow> pstate \<Rightarrow> exit \<times> pstate" where
  "train ext env s =
     (case train_setup ext env s of
        (Inl e, s1) \<Rightarrow> (Raised e, s1)
      | (Inr (train_wrapper, cfg, checkpoint_dir), s1) \<Rightarrow>
          finally_os_exit (train_body ext env train_wrapper cfg checkpoint_dir s1))"


section \<open>Observations on traces\<close>

text \<open>
  The three events whose order matters for the cluster's start-up, the forced exit, and the
  remaining events (\<open>quiet\<close>). \<open>probe\<close> is the heartbeat probe of the liveness monitor.
\<close>

fun is_ps_start :: "event \<Rightarrow> bool" where
  "is_ps_start (ThreadStart_ps_server cur hs cfg) = True"
| "is_ps_start e = False"

fun is_publication :: "event \<Rightarrow> bool" where
  "is_publication (SetEnviron k v) = (k = ''TF_CONFIG'')"
| "is_publication e = False"

fun is_training_start :: "event \<Rightarrow> bool" where
  "is_training_start TrainAndLogExceptions = True"
| "is_training_start e = False"

fun is_os_exit :: "event \<Rightarrow> bool" where
  "is_os_exit (OsExit c) = True"
| "is_os_exit e = False"

definition lifecycle_mark :: "event \<Rightarrow> bool" where
  "lifecycle_mark e = (is_ps_start e \<or> is_publication e \<or> is_training_start e)"

definition quiet :: "event \<Rightarrow> bool" where
  "quiet e = (\<not> lifecycle_mark e \<and> \<not> is_os_exit e)"

definition probe :: "string \<Rightarrow> event" where
  "probe master = CheckCall [''curl'', master @ '':2222'']"

text \<open>The hyperparameters dictionary after the two assignments of \<open>Trainer.__init__\<close>.\<close>

definition with_defaults :: "dict \<Rightarrow> pyval \<Rightarrow> pyval \<Rightarrow> dict" where
  "with_defaults d mef scs =
     d(''min_eval_frequency'' \<mapsto> dict_get d ''min_eval_frequency'' mef,
       ''save_checkpoints_secs'' \<mapsto> dict_get d ''save_checkpoints_secs'' scs)"


section \<open>The specification's view of the estimator dispatch\<close>

text \<open>
  Following the specification's words: the model-construction capabilities form a set, checked
  in a fixed priority order; \<open>spec_selection\<close> is the first capability of that order that
  the customer module supplies. \<open>capability_used\<close> reads off which capability a constructed
  estimator came from.
\<close>

datatype capability = Estimator_fn | Keras_model_fn | Model_fn

fun supplied :: "customer_module \<Rightarrow> capability \<Rightarrow> bool" where
  "supplied m Estimator_fn = has_estimator_fn m"
| "supplied m Keras_model_fn = has_keras_model_fn m"
| "supplied m Model_fn = has_model_fn m"

definition priority_order :: "capability list" where
  "priority_order = [Estimator_fn, Keras_model_fn, Model_fn]"

definition spec_selection :: "customer_module \<Rightarrow> capability option" where
  "spec_selection m = find (supplied m) priority_order"

fun capability_used :: "estimator \<Rightarrow> capability" where
  "capability_used (Estimator_fn_result rc p) = Estimator_fn"
| "capability_used (Model_to_estimator p rc) = Keras_model_fn"
| "capability_used (Estimator p rc) = Model_fn"


section \<open>Concrete inputs\<close>

text \<open>A trainer as \<open>train\<close> builds it for local paths, for a given host list and host.\<close>

definition example_trainer :: "string list \<Rightarrow> string \<Rightarrow> trainer" where
  "example_trainer hs cur =
     \<lparr>customer_script =
        \<lparr>has_estimator_fn = False, has_keras_model_fn = False, has_model_fn = True\<rparr>,
      current_host = cur, hosts = hs, train_steps = IntV 1000, eval_steps = IntV 100,
      training_path = StrV ''/opt/ml/input/data/training'', model_path = StrV ''/opt/ml/model'',
      ouput_path = StrV ''/opt/ml/output'', task_type = None, customer_params = 0\<rparr>"

text \<open>Externals that all succeed, with given curl exit codes; an environment with local
  paths and no hyperparameters set; a process that has done nothing yet.\<close>

definition example_externals :: "int list \<Rightarrow> externals" where
  "example_externals rcs =
     \<lparr>download_user_module = None, pip_install_requirements = None,
      import_user_module =
        Inr \<lparr>has_estimator_fn = False, has_keras_model_fn = False, has_model_fn = True\<rparr>,
      get_bucket_location = Inr None, train_and_log_exceptions = None,
      export_saved_model = None, curl_exit_codes = rcs\<rparr>"

definition example_environment :: "string list \<Rightarrow> string \<Rightarrow> training_environment" where
  "example_environment hs cur =
     \<lparr>env_current_host = cur, env_hosts = hs, env_hyperparameters = 0,
      env_model_dir = ''/opt/ml/model'', env_output_dir = ''/opt/ml/output'',
      env_channel_dirs = [''training'' \<mapsto> ''/opt/ml/input/data/training'']\<rparr>"

definition fresh_process :: pstate where
  "fresh_process = \<lparr>heap = (\<lambda>r. Map.empty), trace = []\<rparr>"

definition example_module :: "bool \<Rightarrow> bool \<Rightarrow> bool \<Rightarrow> customer_module" where
  "example_module e k m = \<lparr>has_estimator_fn = e, has_keras_model_fn = k, has_model_fn = m\<rparr>"



section \<open>Properties of \<open>index\<close> and of the topology builder\<close>

lemma index_py_notin: "x \<notin> set xs \<Longrightarrow> index_py xs x = Inl ValueError"
  by (induction xs) auto

lemma index_py_mem:
  "x \<in> set xs \<Longrightarrow> \<exists>i. index_py xs x = Inr i \<and> i < length xs \<and> xs ! i = x \<and> (\<forall>j<i. xs ! j \<noteq> x)"
proof (induction xs)
  case Nil
  then show ?case by simp
next
  case (Cons y ys)
  show ?case
  proof (cases "y = x")
    case True
    then show ?thesis by simp
  next
    case False
    with Cons.prems have "x \<in> set ys" by simp
    from Cons.IH [OF this] obtain i where
      i: "index_py ys x = Inr i" "i < length ys" "ys ! i = x" "\<forall>j<i. ys ! j \<noteq> x" by blast
    have "\<forall>j<Suc i. (y # ys) ! j \<noteq> x"
      using False i(4) by (auto simp: nth_Cons split: nat.splits)
    with False i show ?thesis by simp
  qed
qed

lemma build_master:
  "hosts self = h # t \<Longrightarrow> current_host self = h \<Longrightarrow>
   build_tf_config self =
     (Inr \<lparr>cluster = (if t = [] then [''master'' \<mapsto> [h @ '':2222'']]
                      else [''master'' \<mapsto> [h @ '':2222''],
                            ''ps'' \<mapsto> build_host_addresses (h # t) ''2223'',
                            ''worker'' \<mapsto> build_host_addresses t ''2222'']),
           task = \<lparr>index = 0, type = ''master''\<rparr>, environment = ''cloud''\<rparr>,
      self\<lparr>task_type := Some ''master''\<rparr>)"
  by (simp add: build_tf_config_def get_task_type_def build_host_addresses_def Let_def)

lemma build_worker:
  "hosts self = h # t \<Longrightarrow> current_host self \<noteq> h \<Longrightarrow> index_py t (current_host self) = Inr i \<Longrightarrow>
   build_tf_config self =
     (Inr \<lparr>cluster = [''master'' \<mapsto> [h @ '':2222''],
                            ''ps'' \<mapsto> build_host_addresses (h # t) ''2223'',
                            ''worker'' \<mapsto> build_host_addresses t ''2222''],
           task = \<lparr>index = i, type = ''worker''\<rparr>, environment = ''cloud''\<rparr>,
      self\<lparr>task_type := Some ''worker''\<rparr>)"
  by (cases t) (auto simp add: build_tf_config_def get_task_type_def build_host_addresses_def Let_def)


section \<open>Claims about the topology builder\<close>

text \<open>
  C1. For a host list \<open>H\<close> and a current host in \<open>H\<close> the build succeeds. When
  \<open>len(H) > 1\<close>, \<open>cluster.master\<close> is \<open>[H[0] + ':2222']\<close>, \<open>cluster.worker\<close> is
  \<open>h + ':2222'\<close> for the hosts of \<open>H[1:]\<close> in order, and \<open>cluster.ps\<close> is \<open>h + ':2223'\<close>
  for all hosts of \<open>H\<close> in order. When \<open>len(H) = 1\<close> the cluster has no \<open>ps\<close> entry.
\<close>

theorem build_tf_config_cluster:
  assumes "current_host self \<in> set (hosts self)"
  shows "\<exists>cfg. fst (build_tf_config self) = Inr cfg \<and>
           (length (hosts self) > 1 \<longrightarrow>
              cluster cfg ''master'' = Some [hosts self ! 0 @ '':2222''] \<and>
              cluster cfg ''worker'' = Some (map (\<lambda>h. h @ '':2222'') (drop 1 (hosts self))) \<and>
              cluster cfg ''ps'' = Some (map (\<lambda>h. h @ '':2223'') (hosts self))) \<and>
           (length (hosts self) = 1 \<longrightarrow> cluster cfg ''ps'' = None)"
proof (cases "hosts self")
  case Nil
  with assms show ?thesis by simp
next
  case (Cons h t)
  show ?thesis
  proof (cases "current_host self = h")
    case True
    from build_master [OF Cons True] show ?thesis
      using Cons by (auto simp: build_host_addresses_def)
  next
    case False
    with assms Cons have "current_host self \<in> set t" by simp
    from index_py_mem [OF this] obtain i where "index_py t (current_host self) = Inr i" by blast
    from build_worker [OF Cons False this] show ?thesis
      using Cons \<open>current_host self \<in> set t\<close> by (auto simp: build_host_addresses_def)
  qed
qed

theorem build_tf_config_cluster_witness:
  "\<exists>cfg. fst (build_tf_config (example_trainer [''a'', ''b'', ''c''] ''b'')) = Inr cfg \<and>
         cluster cfg ''master'' = Some [''a:2222''] \<and>
         cluster cfg ''worker'' = Some [''b:2222'', ''c:2222''] \<and>
         cluster cfg ''ps'' = Some [''a:2223'', ''b:2223'', ''c:2223'']"
  using build_tf_config_cluster [of "example_trainer [''a'', ''b'', ''c''] ''b''"]
  by (simp add: example_trainer_def)

text \<open>
  C2, as the code has it. When the current host is not in the host list, the build fails:
  the role is \<open>worker\<close> and \<open>index\<close> on the worker list raises \<open>ValueError\<close>.
\<close>

theorem build_tf_config_absent_host:
  assumes "current_host self \<notin> set (hosts self)"
  shows "fst (build_tf_config self) = Inl ValueError \<and>
         task_type (snd (build_tf_config self)) = Some ''worker''"
proof -
  from assms have not_master: "current_host self \<notin> set (take 1 (hosts self))"
    by (auto dest: in_set_takeD)
  from assms have "current_host self \<notin> set (drop 1 (hosts self))"
    by (auto dest: in_set_dropD)
  then have "index_py (drop 1 (hosts self)) (current_host self) = Inl ValueError"
    by (rule index_py_notin)
  with not_master assms show ?thesis
    by (simp add: build_tf_config_def get_task_type_def Let_def)
qed

theorem build_tf_config_absent_host_witness:
  "fst (build_tf_config (example_trainer [''a'', ''b''] ''z'')) = Inl ValueError \<and>
   task_type (snd (build_tf_config (example_trainer [''a'', ''b''] ''z''))) = Some ''worker''"
  using build_tf_config_absent_host [of "example_trainer [''a'', ''b''] ''z''"]
  by (simp add: example_trainer_def)

text \<open>
  C2 as stated fails: for hosts \<open>["a"]\<close> and current host \<open>"b"\<close> the error is not
  \<open>ConfigurationError\<close>.
\<close>

theorem build_tf_config_not_ConfigurationError:
  "fst (build_tf_config (example_trainer [''a''] ''b'')) \<noteq> Inl ConfigurationError"
  by (simp add: example_trainer_def build_tf_config_def get_task_type_def Let_def)

text \<open>
  C3. For a non-empty host list and a current host in it, the build succeeds and records
  one role: \<open>master\<close> exactly when the current host is \<open>H[0]\<close>, \<open>worker\<close> otherwise.
  \<open>task.index\<close> is the first position of the current host in that role's list: 0 in the
  master list \<open>H[:1]\<close>, and for a worker its position in \<open>H[1:]\<close>, which is one less than
  its position in the full list that the \<open>ps\<close> entry carries.
\<close>

theorem build_tf_config_task:
  assumes "hosts self \<noteq> []" and "current_host self \<in> set (hosts self)"
  shows "\<exists>cfg. fst (build_tf_config self) = Inr cfg \<and>
           task_type (snd (build_tf_config self)) = Some (type (task cfg)) \<and>
           (current_host self = hosts self ! 0 \<longrightarrow>
              type (task cfg) = ''master'' \<and> index (task cfg) = 0 \<and>
              index_py (take 1 (hosts self)) (current_host self) = Inr (index (task cfg))) \<and>
           (current_host self \<noteq> hosts self ! 0 \<longrightarrow>
              type (task cfg) = ''worker'' \<and>
              index_py (drop 1 (hosts self)) (current_host self) = Inr (index (task cfg)) \<and>
              index (task cfg) < length (drop 1 (hosts self)) \<and>
              drop 1 (hosts self) ! index (task cfg) = current_host self \<and>
              (\<forall>j < index (task cfg). drop 1 (hosts self) ! j \<noteq> current_host self) \<and>
              index_py (hosts self) (current_host self) = Inr (Suc (index (task cfg))))"
proof (cases "hosts self")
  case Nil
  with assms show ?thesis by simp
next
  case (Cons h t)
  show ?thesis
  proof (cases "current_host self = h")
    case True
    from build_master [OF Cons True] show ?thesis
      using Cons True by simp
  next
    case False
    with assms Cons have "current_host self \<in> set t" by simp
    from index_py_mem [OF this] obtain i where
      i: "index_py t (current_host self) = Inr i" "i < length t" "t ! i = current_host self"
         "\<forall>j<i. t ! j \<noteq> current_host self" by blast
    from build_worker [OF Cons False i(1)] show ?thesis
      using Cons False i by simp
  qed
qed

theorem build_tf_config_task_witness:
  "\<exists>cfg. fst (build_tf_config (example_trainer [''a'', ''b'', ''c''] ''c'')) = Inr cfg \<and>
         task cfg = \<lparr>index = 1, type = ''worker''\<rparr>"
  using build_tf_config_task [of "example_trainer [''a'', ''b'', ''c''] ''c''"]
  by (auto simp add: example_trainer_def)

text \<open>
  C6, as the code has it. For hosts \<open>["a"]\<close> and current host \<open>"a"\<close> the topology has the
  task \<open>{index: 0, type: "master"}\<close> and its cluster holds the \<open>master\<close> entry only: there
  is neither a \<open>ps\<close> entry nor a \<open>worker\<close> entry.
\<close>

theorem single_host_topology:
  assumes "hosts self = [''a'']" and "current_host self = ''a''"
  shows "fst (build_tf_config self) =
           Inr \<lparr>cluster = [''master'' \<mapsto> [''a:2222'']],
                task = \<lparr>index = 0, type = ''master''\<rparr>, environment = ''cloud''\<rparr> \<and>
         [''master'' \<mapsto> [''a:2222'']] ''ps'' = None \<and>
         [''master'' \<mapsto> [''a:2222'']] ''worker'' = (None :: string list option)"
  using build_master [OF assms] by simp

theorem single_host_topology_witness:
  "fst (build_tf_config (example_trainer [''a''] ''a'')) =
           Inr \<lparr>cluster = [''master'' \<mapsto> [''a:2222'']],
                task = \<lparr>index = 0, type = ''master''\<rparr>, environment = ''cloud''\<rparr>"
  using single_host_topology [of "example_trainer [''a''] ''a''"]
  by (simp add: example_trainer_def)

text \<open>
  C6 as stated fails: for the single host the \<open>worker\<close> entry is absent, it is not the
  empty list.
\<close>

theorem single_host_worker_not_empty_list:
  "(case fst (build_tf_config (example_trainer [''a''] ''a'')) of
      Inl e \<Rightarrow> False
    | Inr cfg \<Rightarrow> cluster cfg ''worker'' = None \<and> cluster cfg ''worker'' \<noteq> Some [])"
  by (simp add: example_trainer_def build_tf_config_def get_task_type_def Let_def build_host_addresses_def)

text \<open>
  C10. For a non-empty host list and a current host in it, \<open>_get_master\<close> applied to the
  built topology gives back \<open>H[0]\<close>: the slice \<open>[:-5]\<close> removes the \<open>':2222'\<close> that the
  builder appended.
\<close>

theorem get_master_build_tf_config:
  assumes "hosts self \<noteq> []" and "current_host self \<in> set (hosts self)"
  shows "\<exists>cfg. fst (build_tf_config self) = Inr cfg \<and> get_master cfg = Inr (hosts self ! 0)"
proof (cases "hosts self")
  case Nil
  with assms show ?thesis by simp
next
  case (Cons h t)
  show ?thesis
  proof (cases "current_host self = h")
    case True
    from build_master [OF Cons True] show ?thesis
      using Cons by (simp add: get_master_def drop_last5_def)
  next
    case False
    with assms Cons have "current_host self \<in> set t" by simp
    from index_py_mem [OF this] obtain i where "index_py t (current_host self) = Inr i" by blast
    from build_worker [OF Cons False this] show ?thesis
      using Cons by (simp add: get_master_def drop_last5_def)
  qed
qed

theorem get_master_build_tf_config_witness:
  "\<exists>cfg. fst (build_tf_config (example_trainer [''algo-1'', ''algo-2''] ''algo-2'')) = Inr cfg \<and>
         get_master cfg = Inr ''algo-1''"
  using get_master_build_tf_config [of "example_trainer [''algo-1'', ''algo-2''] ''algo-2''"]
  by (simp add: example_trainer_def)


section \<open>Effects of the orchestration's parts\<close>

lemmas run_defs =
  train_def train_setup_def train_body_def finally_os_exit_def call_def emit_def
  Trainer_init_def build_tf_config_def get_task_type_def build_host_addresses_def
  run_ps_server_def save_tf_config_env_var_def get_master_def drop_last5_def
  startswith_def dict_get_def CHANNEL_DIR_def Let_def
  example_externals_def example_environment_def fresh_process_def

lemma trace_emit [simp]: "trace (emit e s) = trace s @ [e]"
  by (simp add: emit_def)

lemma heap_emit [simp]: "heap (emit e s) = heap s"
  by (simp add: emit_def)

lemma wait_returns:
  "rc \<noteq> 0 \<Longrightarrow>
   wait_until_master_is_down master (replicate k 0 @ rc # rest) s =
     (Normal, rest,
      s\<lparr>trace := trace s @ concat (replicate k [probe master, TimeSleep 10]) @ [probe master]\<rparr>)"
proof (induction k arbitrary: s)
  case 0
  then show ?case by (simp add: emit_def probe_def)
next
  case (Suc k)
  from Suc.IH [OF Suc.prems] show ?case by (simp add: emit_def probe_def)
qed

lemma wait_blocked:
  "wait_until_master_is_down master (replicate k 0) s =
     (Blocked, [], s\<lparr>trace := trace s @ concat (replicate k [probe master, TimeSleep 10])\<rparr>)"
proof (induction k arbitrary: s)
  case 0
  show ?case by simp
next
  case (Suc k)
  from Suc.IH show ?case by (simp add: emit_def probe_def)
qed

lemma count_sleeps:
  "count_list (concat (replicate k [probe master, TimeSleep 10]) @ [probe master]) (TimeSleep 10) = k"
  by (induction k) (simp_all add: probe_def)

lemma count_probes:
  "count_list (concat (replicate k [probe master, TimeSleep 10]) @ [probe master]) (probe master) = Suc k"
  by (induction k) (simp_all add: probe_def)

lemma wait_quiet:
  "wait_until_master_is_down master rcs s = (c, rest, s') \<Longrightarrow>
   \<exists>evs. trace s' = trace s @ evs \<and> (\<forall>e\<in>set evs. quiet e) \<and> heap s' = heap s"
proof (induction master rcs s rule: wait_until_master_is_down.induct)
  case (1 master s)
  then show ?case by auto
next
  case (2 master rc rcs s)
  show ?case
  proof (cases "rc = 0")
    case True
    with 2 obtain evs where
      "trace s' = trace (emit (TimeSleep 10) (emit (CheckCall [''curl'', master @ '':2222'']) s)) @ evs"
      "\<forall>e\<in>set evs. quiet e" "heap s' = heap s"
      by auto
    then show ?thesis
      by (auto simp: quiet_def lifecycle_mark_def intro!: exI [of _ "[CheckCall [''curl'', master @ '':2222''], TimeSleep 10] @ evs"])
  next
    case False
    with 2 show ?thesis by (auto simp: quiet_def lifecycle_mark_def)
  qed
qed

lemma wait_decided:
  "\<exists>rc\<in>set rcs. rc \<noteq> 0 \<Longrightarrow> fst (wait_until_master_is_down master rcs s) = Normal"
  by (induction master rcs s rule: wait_until_master_is_down.induct) auto

lemma call_trace:
  "call e outcome s = (r, s') \<Longrightarrow> trace s' = trace s @ [e] \<and> heap s' = heap s"
  by (auto simp: call_def split: option.splits)

lemma configure_s3_quiet:
  "configure_s3_file_system ext p s = (r, s') \<Longrightarrow>
   \<exists>evs. trace s' = trace s @ evs \<and> (\<forall>e\<in>set evs. quiet e) \<and> heap s' = heap s"
  by (auto simp: configure_s3_file_system_def Let_def quiet_def lifecycle_mark_def
           split: sum.splits option.splits if_splits)

lemma Trainer_init_effect:
  "Trainer_init ext script cur hs ts es tp mp op mef params scs s = (r, s') \<Longrightarrow>
   (\<exists>evs. trace s' = trace s @ evs \<and> (\<forall>e\<in>set evs. quiet e)) \<and>
   heap s' = (heap s)(params := with_defaults (heap s params) mef scs)"
  by (auto simp: Trainer_init_def Let_def with_defaults_def dict_get_def
           split: pyval.splits if_splits prod.splits sum.splits dest!: configure_s3_quiet)

lemma Trainer_init_fields:
  "Trainer_init ext script cur hs ts es tp mp op mef params scs s = (Inr t, s') \<Longrightarrow>
   t = \<lparr>customer_script = script, current_host = cur, hosts = hs,
                  train_steps = ts, eval_steps = es, training_path = tp,
                  model_path = mp, ouput_path = op, task_type = None,
                  customer_params = params\<rparr>"
  by (auto simp: Trainer_init_def Let_def
           split: pyval.splits if_splits prod.splits sum.splits)

lemma quiet_simps [simp]:
  "quiet (SetEnviron k v) = (k \<noteq> ''TF_CONFIG'')"
  "quiet DownloadUserModule" "quiet PipInstallRequirements" "quiet ImportUserModule"
  "quiet (GetBucketLocation p)" "quiet (ExportSavedModel a b)" "quiet (CheckCall xs)"
  "quiet (TimeSleep n)" "\<not> quiet (OsExit c)" "\<not> quiet TrainAndLogExceptions"
  "\<not> quiet (ThreadStart_ps_server cur hs cfg)"
  by (simp_all add: quiet_def lifecycle_mark_def)

lemma train_setup_fail:
  "train_setup ext env s = (Inl err, s1) \<Longrightarrow>
   \<exists>pre. trace s1 = trace s @ pre \<and> (\<forall>e\<in>set pre. quiet e)"
  unfolding train_setup_def Let_def
  by (auto split: prod.splits sum.splits option.splits if_splits
           simp: run_ps_server_def save_tf_config_env_var_def
           dest!: call_trace Trainer_init_effect)

lemma train_setup_ok:
  "train_setup ext env s = (Inr (tw, cfg, ckpt), s1) \<Longrightarrow>
   (\<exists>pre. trace s1 = trace s @ pre @
       (if length (env_hosts env) > 1
        then [ThreadStart_ps_server (env_current_host env) (env_hosts env) cfg] else []) @
       [SetEnviron ''TF_CONFIG'' (Json_dumps cfg)] \<and> (\<forall>e\<in>set pre. quiet e))"
  unfolding train_setup_def Let_def
  by (auto split: prod.splits sum.splits option.splits if_splits
           simp: run_ps_server_def save_tf_config_env_var_def
           dest!: call_trace Trainer_init_effect)

lemma train_body_trace:
  "train_body ext env tw cfg ckpt s = (c, s') \<Longrightarrow>
   \<exists>post. trace s' = trace s @ TrainAndLogExceptions # post \<and> (\<forall>e\<in>set post. quiet e)"
  unfolding train_body_def
  by (auto split: prod.splits sum.splits option.splits if_splits
           dest!: call_trace wait_quiet)

lemma wait_blocked_all_zero:
  "wait_until_master_is_down m rcs s = (Blocked, a, b) \<Longrightarrow> rc \<in> set rcs \<Longrightarrow> rc = 0"
  using wait_decided [of rcs m s] by auto

lemma train_body_ends:
  assumes "train_and_log_exceptions ext \<noteq> None \<or> task_type tw = Some ''master'' \<or>
           (\<exists>rc\<in>set (curl_exit_codes ext). rc \<noteq> 0)"
  shows "fst (train_body ext env tw cfg ckpt s) \<noteq> Blocked"
  using assms unfolding train_body_def call_def
  by (auto split: prod.splits sum.splits option.splits if_splits dest: wait_blocked_all_zero)


lemma train_never_returns: "fst (train ext env s) \<noteq> Returned"
  by (auto simp: train_def finally_os_exit_def
           split: prod.splits sum.splits completion.splits)


section \<open>Claims about the liveness monitor and the orchestration\<close>

text \<open>
  C4. When the probes give \<open>k\<close> successes and then a failure, the monitor returns right
  after the failed probe: its events are \<open>k\<close> times a probe followed by a sleep of 10
  seconds, then the failed probe and nothing more. So it sleeps exactly \<open>k\<close> times, once
  after each successful probe, it probes \<open>k + 1\<close> times, and the exit codes after the
  failure are handed back unused.
\<close>

theorem wait_until_master_is_down_returns:
  assumes "rc \<noteq> 0"
  shows "wait_until_master_is_down master (replicate k 0 @ rc # rest) s =
           (Normal, rest,
            s\<lparr>trace := trace s @ concat (replicate k [probe master, TimeSleep 10]) @
                         [probe master]\<rparr>) \<and>
         count_list (concat (replicate k [probe master, TimeSleep 10]) @ [probe master])
           (TimeSleep 10) = k \<and>
         count_list (concat (replicate k [probe master, TimeSleep 10]) @ [probe master])
           (probe master) = Suc k"
  using wait_returns [OF assms] count_sleeps count_probes by simp

theorem wait_until_master_is_down_returns_witness:
  "wait_until_master_is_down ''algo-1'' [0, 7, 0] fresh_process =
     (Normal, [0],
      \<lparr>heap = (\<lambda>r. Map.empty),
       trace = [CheckCall [''curl'', ''algo-1:2222''], TimeSleep 10,
                CheckCall [''curl'', ''algo-1:2222'']]\<rparr>)"
  using wait_until_master_is_down_returns [of 7 "''algo-1''" 1 "[0]" fresh_process]
  by (simp add: fresh_process_def probe_def)

text \<open>
  C5, as the code has it. Once \<open>train\<close> has reached its \<open>try\<close> statement (the set-up
  before it raised nothing), every way the body ends leads to the forced exit: whether the
  training raises, the node is the master (training succeeds, with or without an export, or
  the export raises), or the wait for the master sees a failed probe, \<open>train\<close> ends in
  \<open>os._exit(0)\<close>, which is the last event and the only exit event of the run.
\<close>

theorem train_forced_exit:
  assumes "train_setup ext env s = (Inr (tw, cfg, ckpt), s1)"
      and "train_and_log_exceptions ext \<noteq> None \<or> task_type tw = Some ''master'' \<or>
           (\<exists>rc\<in>set (curl_exit_codes ext). rc \<noteq> 0)"
  shows "\<exists>evs. fst (train ext env s) = Exited 0 \<and>
               trace (snd (train ext env s)) = trace s @ evs @ [OsExit 0] \<and>
               (\<forall>e\<in>set evs. \<not> is_os_exit e)"
proof -
  obtain c s2 where body: "train_body ext env tw cfg ckpt s1 = (c, s2)"
    by (cases "train_body ext env tw cfg ckpt s1") auto
  from train_body_ends [OF assms(2), of env cfg ckpt s1] body have c: "c \<noteq> Blocked" by simp
  from train_setup_ok [OF assms(1)] obtain pre where
    pre: "trace s1 = trace s @ pre" "\<forall>e\<in>set pre. \<not> is_os_exit e"
    by (auto simp: quiet_def split: if_splits)
  from train_body_trace [OF body] obtain post where
    post: "trace s2 = trace s1 @ post" "\<forall>e\<in>set post. \<not> is_os_exit e"
    by (auto simp: quiet_def)
  from assms(1) body c have "train ext env s = (Exited 0, emit (OsExit 0) s2)"
    by (cases c) (simp_all add: train_def finally_os_exit_def)
  with pre post show ?thesis
    by (auto intro!: exI [of _ "pre @ post"])
qed

theorem train_forced_exit_witness:
  "fst (train (example_externals [0, 7]) (example_environment [''a'', ''b''] ''b'') fresh_process)
     = Exited 0 \<and>
   filter is_os_exit
     (trace (snd (train (example_externals [0, 7]) (example_environment [''a'', ''b''] ''b'')
                    fresh_process))) = [OsExit 0] \<and>
   last (trace (snd (train (example_externals [0, 7]) (example_environment [''a'', ''b''] ''b'')
                    fresh_process))) = OsExit 0"
proof -
  obtain x s1 where
    reached: "train_setup (example_externals [0, 7]) (example_environment [''a'', ''b''] ''b'')
              fresh_process = (Inr x, s1)"
    by (simp add: run_defs)
  obtain tw cfg ckpt where x: "x = (tw, cfg, ckpt)" by (cases x) auto
  have codes: "\<exists>rc\<in>set (curl_exit_codes (example_externals [0, 7])). rc \<noteq> 0"
    by (simp add: example_externals_def)
  from train_forced_exit [OF reached [unfolded x]] codes show ?thesis
    by (auto simp: fresh_process_def filter_empty_conv)
qed

text \<open>
  C5 as stated fails: when the current host is not in the host list, \<open>build_tf_config\<close>
  raises before the \<open>try\<close> statement, the exception leaves \<open>train\<close> and no forced exit
  happens.
\<close>

theorem train_setup_failure_skips_exit:
  "fst (train (example_externals []) (example_environment [''a''] ''b'') fresh_process)
     = Raised ValueError \<and>
   filter is_os_exit
     (trace (snd (train (example_externals []) (example_environment [''a''] ''b'')
                    fresh_process))) = []"
  by (simp add: run_defs)

text \<open>
  C7. In every run of \<open>train\<close>, on every node: either the set-up raises and none of the
  three events happens, or the events happen in this order, each once: the start of the
  parameter-server thread (only when there is more than one host), the publication of the
  topology in \<open>TF_CONFIG\<close>, the start of the training.
\<close>

theorem train_order:
  "\<exists>evs. trace (snd (train ext env s)) = trace s @ evs \<and>
     (case fst (train_setup ext env s) of
        Inl e \<Rightarrow> filter lifecycle_mark evs = []
      | Inr (tw, cfg, ckpt) \<Rightarrow>
          filter lifecycle_mark evs =
            (if length (env_hosts env) > 1
             then [ThreadStart_ps_server (env_current_host env) (env_hosts env) cfg] else []) @
            [SetEnviron ''TF_CONFIG'' (Json_dumps cfg), TrainAndLogExceptions])"
proof (cases "train_setup ext env s")
  case (Pair r s1)
  show ?thesis
  proof (cases r)
    case (Inl e)
    from train_setup_fail [OF Pair [unfolded Inl]] obtain pre where
      "trace s1 = trace s @ pre" "\<forall>e\<in>set pre. quiet e" by blast
    with Pair Inl show ?thesis
      by (auto simp: train_def quiet_def filter_empty_conv)
  next
    case (Inr x)
    obtain tw cfg ckpt where x: "x = (tw, cfg, ckpt)" by (cases x) auto
    obtain c s2 where body: "train_body ext env tw cfg ckpt s1 = (c, s2)"
      by (cases "train_body ext env tw cfg ckpt s1") auto
    from train_setup_ok [OF Pair [unfolded Inr x]] obtain pre where
      pre: "trace s1 = trace s @ pre @
             (if length (env_hosts env) > 1
              then [ThreadStart_ps_server (env_current_host env) (env_hosts env) cfg] else []) @
             [SetEnviron ''TF_CONFIG'' (Json_dumps cfg)]" "\<forall>e\<in>set pre. quiet e"
      by blast
    from train_body_trace [OF body] obtain post where
      post: "trace s2 = trace s1 @ TrainAndLogExceptions # post" "\<forall>e\<in>set post. quiet e"
      by blast
    have marks: "filter lifecycle_mark pre = []" "filter lifecycle_mark post = []"
      using pre(2) post(2) by (auto simp: quiet_def filter_empty_conv)
    have "\<exists>fin. trace (snd (train ext env s)) = trace s2 @ fin \<and> filter lifecycle_mark fin = []"
      using Pair Inr x body
      by (cases c) (auto simp: train_def finally_os_exit_def lifecycle_mark_def)
    then obtain fin where
      fin: "trace (snd (train ext env s)) = trace s2 @ fin" "filter lifecycle_mark fin = []"
      by blast
    show ?thesis
      using Pair Inr x pre(1) post(1) marks fin
      by (auto simp: lifecycle_mark_def)
  qed
qed

theorem train_order_witness:
  "\<exists>cfg. filter lifecycle_mark
     (trace (snd (train (example_externals [3]) (example_environment [''a'', ''b''] ''b'')
                    fresh_process))) =
     [ThreadStart_ps_server ''b'' [''a'', ''b''] cfg, SetEnviron ''TF_CONFIG'' (Json_dumps cfg),
      TrainAndLogExceptions]"
proof -
  obtain tw cfg ckpt s1 where
    reached: "train_setup (example_externals [3]) (example_environment [''a'', ''b''] ''b'')
              fresh_process = (Inr (tw, cfg, ckpt), s1)"
    by (simp add: run_defs)
  from train_order [of "example_externals [3]" "example_environment [''a'', ''b''] ''b''"
                       fresh_process] reached
  show ?thesis
    by (auto simp: fresh_process_def example_environment_def)
qed


section \<open>Claims about the trainer\<close>

text \<open>
  C8, as the code has it. \<open>estimator_fn\<close> is used when present, whatever else is present;
  otherwise \<open>keras_model_fn\<close> when present; otherwise the \<open>model_fn\<close> branch is taken,
  whether or not \<open>model_fn\<close> is present. So when at least one capability is supplied, the
  first supplied one in priority order is used; when none is, an estimator is still built on
  the \<open>model_fn\<close> branch, and the missing \<open>model_fn\<close> shows only when the wrapped model
  function is called.
\<close>

theorem build_estimator_dispatch:
  "(has_estimator_fn (customer_script self) \<longrightarrow>
      build_estimator self s =
        Estimator_fn_result
          \<lparr>model_dir = model_path self,
           kwargs = heap s (customer_params self) |` set valid_runconfig_keys\<rparr>
          (customer_params self)) \<and>
   (\<not> has_estimator_fn (customer_script self) \<and> has_keras_model_fn (customer_script self) \<longrightarrow>
      build_estimator self s =
        Model_to_estimator (customer_params self)
          \<lparr>model_dir = model_path self,
           kwargs = heap s (customer_params self) |` set valid_runconfig_keys\<rparr>) \<and>
   (\<not> has_estimator_fn (customer_script self) \<and> \<not> has_keras_model_fn (customer_script self) \<longrightarrow>
      build_estimator self s =
        Estimator (customer_params self)
          \<lparr>model_dir = model_path self,
           kwargs = heap s (customer_params self) |` set valid_runconfig_keys\<rparr>) \<and>
   (\<forall>c. spec_selection (customer_script self) = Some c \<longrightarrow>
      capability_used (build_estimator self s) = c) \<and>
   (spec_selection (customer_script self) = None \<longrightarrow>
      capability_used (build_estimator self s) = Model_fn \<and>
      model_fn_wrapper self = Inl AttributeError)"
  by (auto simp: build_estimator_def spec_selection_def priority_order_def model_fn_wrapper_def
                 Let_def split: if_splits)

theorem build_estimator_dispatch_witness:
  "capability_used
     (build_estimator
        ((example_trainer [''a''] ''a'')\<lparr>customer_script := example_module False True True\<rparr>)
        fresh_process) = Keras_model_fn"
  using build_estimator_dispatch
    [of "(example_trainer [''a''] ''a'')\<lparr>customer_script := example_module False True True\<rparr>"
        fresh_process]
  by (simp add: example_trainer_def example_module_def spec_selection_def priority_order_def)

text \<open>
  C8 as stated fails: nothing checks that exactly one capability is supplied. With none
  supplied an estimator is built on the \<open>model_fn\<close> branch; with all three supplied
  \<open>estimator_fn\<close> is used.
\<close>

theorem build_estimator_no_exactly_one_check:
  "filter (supplied (example_module False False False)) priority_order = [] \<and>
   capability_used
     (build_estimator
        ((example_trainer [''a''] ''a'')\<lparr>customer_script := example_module False False False\<rparr>)
        fresh_process) = Model_fn \<and>
   filter (supplied (example_module True True True)) priority_order =
     [Estimator_fn, Keras_model_fn, Model_fn] \<and>
   capability_used
     (build_estimator
        ((example_trainer [''a''] ''a'')\<lparr>customer_script := example_module True True True\<rparr>)
        fresh_process) = Estimator_fn"
  by (simp add: example_trainer_def example_module_def priority_order_def build_estimator_def
                Let_def)

text \<open>
  C9, as the code has it. Constructing a trainer writes into the hyperparameters dictionary
  it was given: the keys \<open>min_eval_frequency\<close> and \<open>save_checkpoints_secs\<close> get their
  present value or else the default; every other key, every value already present and every
  other dictionary stay as they were. The trainer's fields are the arguments, with
  \<open>task_type\<close> unset. \<open>build_tf_config\<close> changes the trainer in \<open>task_type\<close> only, which
  it sets to the role.
\<close>

theorem trainer_configuration_frame:
  assumes "Trainer_init ext script cur hs ts es tp mp op mef params scs s = (r, s')"
  shows "(\<forall>q. q \<noteq> params \<longrightarrow> heap s' q = heap s q) \<and>
         (\<forall>k. k \<noteq> ''min_eval_frequency'' \<and> k \<noteq> ''save_checkpoints_secs'' \<longrightarrow>
               heap s' params k = heap s params k) \<and>
         (\<forall>k v. heap s params k = Some v \<longrightarrow> heap s' params k = Some v) \<and>
         heap s' params ''min_eval_frequency'' =
           Some (dict_get (heap s params) ''min_eval_frequency'' mef) \<and>
         heap s' params ''save_checkpoints_secs'' =
           Some (dict_get (heap s params) ''save_checkpoints_secs'' scs) \<and>
         (\<forall>t. r = Inr t \<longrightarrow>
               t = \<lparr>customer_script = script, current_host = cur, hosts = hs,
                    train_steps = ts, eval_steps = es, training_path = tp,
                    model_path = mp, ouput_path = op, task_type = None,
                    customer_params = params\<rparr>) \<and>
         (\<forall>t. snd (build_tf_config t) =
               t\<lparr>task_type :=
                    Some (if current_host t \<in> set (take 1 (hosts t))
                          then ''master'' else ''worker'')\<rparr>)"
proof -
  have h: "heap s' = (heap s)(params := with_defaults (heap s params) mef scs)"
    using Trainer_init_effect [OF assms] by simp
  have b: "snd (build_tf_config t) =
             t\<lparr>task_type := Some (if current_host t \<in> set (take 1 (hosts t))
                                   then ''master'' else ''worker'')\<rparr>" for t
    by (simp add: build_tf_config_def get_task_type_def Let_def
             split: option.splits sum.splits)
  have f: "\<forall>t. r = Inr t \<longrightarrow>
               t = \<lparr>customer_script = script, current_host = cur, hosts = hs,
                    train_steps = ts, eval_steps = es, training_path = tp,
                    model_path = mp, ouput_path = op, task_type = None,
                    customer_params = params\<rparr>"
    using Trainer_init_fields assms by blast
  show ?thesis
    using b f by (simp add: h with_defaults_def dict_get_def split: option.splits)
qed

theorem trainer_configuration_frame_witness:
  "heap (snd (Trainer_init (example_externals []) (example_module False False True) ''a'' [''a'']
                (IntV 1000) (IntV 100) (StrV ''/data'') (StrV ''/model'') (StrV ''/out'')
                (IntV 1000) 0 (IntV 300)
                (fresh_process\<lparr>heap := (\<lambda>r. [''min_eval_frequency'' \<mapsto> IntV 5,
                                                ''batch_size'' \<mapsto> IntV 32])\<rparr>))) 0
     ''min_eval_frequency'' = Some (IntV 5) \<and>
   heap (snd (Trainer_init (example_externals []) (example_module False False True) ''a'' [''a'']
                (IntV 1000) (IntV 100) (StrV ''/data'') (StrV ''/model'') (StrV ''/out'')
                (IntV 1000) 0 (IntV 300)
                (fresh_process\<lparr>heap := (\<lambda>r. [''min_eval_frequency'' \<mapsto> IntV 5,
                                                ''batch_size'' \<mapsto> IntV 32])\<rparr>))) 0
     ''save_checkpoints_secs'' = Some (IntV 300)"
proof -
  obtain r s' where init:
    "Trainer_init (example_externals []) (example_module False False True) ''a'' [''a'']
       (IntV 1000) (IntV 100) (StrV ''/data'') (StrV ''/model'') (StrV ''/out'')
       (IntV 1000) 0 (IntV 300)
       (fresh_process\<lparr>heap := (\<lambda>r. [''min_eval_frequency'' \<mapsto> IntV 5,
                                       ''batch_size'' \<mapsto> IntV 32])\<rparr>) = (r, s')"
    by (rule prod.exhaust)
  from trainer_configuration_frame [OF init] have
    "heap s' 0 ''min_eval_frequency'' = Some (IntV 5) \<and>
     heap s' 0 ''save_checkpoints_secs'' = Some (IntV 300)"
    by (simp add: dict_get_def fresh_process_def)
  then show ?thesis by (simp only: init snd_conv)
qed

text \<open>
  C9 as stated fails: the constructor adds \<open>min_eval_frequency\<close> to an empty hyperparameters
  dictionary, and \<open>build_tf_config\<close> changes \<open>task_type\<close> from unset to \<open>master\<close>.
\<close>

theorem trainer_mutates_configuration:
  "heap fresh_process 0 ''min_eval_frequency'' = None \<and>
   heap (snd (Trainer_init (example_externals []) (example_module False False True) ''a'' [''a'']
                (IntV 1000) (IntV 100) (StrV ''/data'') (StrV ''/model'') (StrV ''/out'')
                (IntV 1000) 0 (IntV 300) fresh_process)) 0 ''min_eval_frequency''
     = Some (IntV 1000) \<and>
   task_type (example_trainer [''a''] ''a'') = None \<and>
   task_type (snd (build_tf_config (example_trainer [''a''] ''a''))) = Some ''master''"
  by (simp add: fresh_process_def Trainer_init_def startswith_def dict_get_def Let_def
                example_trainer_def build_tf_config_def get_task_type_def)

end
